theory Spec2Isabelle
  imports Main
begin

section \<open>Menu.tsx of react-aria-components: data model\<close>

text \<open>
  The interaction flags of one item, as \<open>useMenuItem\<close> returns them (the \<open>...states\<close>
  of its result), and the render values handed to an item's render-prop callbacks: the
  object literal \<open>{...states, isHovered, isFocusVisible, selectionMode, selectionBehavior}\<close>
  of \<open>MenuItemInner\<close>.
\<close>

record item_states =
  isFocused :: bool
  isSelected :: bool
  isPressed :: bool
  isDisabled :: bool

record item_render_props = item_states +
  isHovered :: bool
  isFocusVisible :: bool
  selectionMode :: string
  selectionBehavior :: string

text \<open>
  JavaScript values as far as this file looks at them: \<open>undefined\<close>, \<open>null\<close>, booleans,
  strings, a render-prop callback, and anything else (objects, handlers, refs, React
  content) as an opaque, truthy value.
\<close>

datatype jsval =
    JUndefined
  | JNull
  | JBool bool
  | JStr string
  | JFun "item_render_props \<Rightarrow> jsval"
  | JOpaque string

text \<open>
  An object of props is its list of entries in the order written; a later entry of a
  key overrides an earlier one (object spread and JSX attributes), and a key that is
  not there reads as \<open>undefined\<close>.
\<close>

type_synonym attrs = "(string \<times> jsval) list"

definition get :: "attrs \<Rightarrow> string \<Rightarrow> jsval" where
  "get a k = (case map_of (rev a) k of None \<Rightarrow> JUndefined | Some v \<Rightarrow> v)"

text \<open>JavaScript truthiness, \<open>a || b\<close> and \<open>a ?? b\<close>.\<close>

fun truthy :: "jsval \<Rightarrow> bool" where
  "truthy JUndefined = False"
| "truthy JNull = False"
| "truthy (JBool b) = b"
| "truthy (JStr s) = (s \<noteq> [])"
| "truthy (JFun f) = True"
| "truthy (JOpaque x) = True"

definition js_or :: "jsval \<Rightarrow> jsval \<Rightarrow> jsval" where
  "js_or a b = (if truthy a then a else b)"

fun nullish :: "jsval \<Rightarrow> jsval \<Rightarrow> jsval" where
  "nullish JUndefined b = b"
| "nullish JNull b = b"
| "nullish a b = a"

type_synonym key = string

record node =
  type :: string
  key :: key
  props :: attrs
  rendered :: jsval
  aria_label :: jsval

text \<open>
  The collection as this file reads it: iterating it gives its top-level nodes in order,
  \<open>getChildren\<close> gives the children of a key, \<open>size\<close> is a number.
\<close>

record collection =
  nodes :: "node list"
  getChildren :: "key \<Rightarrow> node list"
  size_c :: nat

record selection_manager =
  selectionMode :: string
  selectionBehavior :: string

record tree_state =
  collection :: collection
  selectionManager :: selection_manager

record menu_item_aria =
  menuItemProps :: attrs
  labelProps :: attrs
  descriptionProps :: attrs
  keyboardShortcutProps :: attrs
  states :: item_states

record focus_ring =
  isFocusVisible :: bool
  focusProps :: attrs

record menu_section_aria =
  headingProps :: attrs
  groupProps :: attrs

text \<open>
  What the hooks and helpers imported from other packages return. They are parameters
  of the model: nothing is assumed about them. \<open>useMenuItem\<close>, \<open>useFocusRing\<close> and
  \<open>useSlot\<close> hold state per component instance, so they are indexed by the key of the
  node the instance renders.
\<close>

record hooks =
  useSelection :: "attrs \<Rightarrow> selection_manager"
  useMenu :: "attrs \<Rightarrow> tree_state \<Rightarrow> attrs"
  useMenuItem :: "key \<Rightarrow> tree_state \<Rightarrow> menu_item_aria"
  useFocusRing :: "key \<Rightarrow> focus_ring"
  useSlot :: "key \<Rightarrow> jsval \<times> jsval"
  useMenuSection :: "jsval \<Rightarrow> jsval \<Rightarrow> menu_section_aria"
  useObjectRef :: "jsval \<Rightarrow> jsval"
  mergeProps :: "attrs \<Rightarrow> attrs \<Rightarrow> attrs"
  mergeRefs :: "jsval \<Rightarrow> jsval \<Rightarrow> jsval"
  filterDOMProps :: "attrs \<Rightarrow> attrs"

text \<open>
  React nodes: \<open>false\<close> and \<open>null\<close> (which render nothing), content that is passed through
  (\<open>item.rendered\<close>, the portal), DOM elements with their props and children, the
  \<open>Provider\<close> with the context values it publishes, and the elements of the components
  \<open>MenuInner\<close>, \<open>MenuSection\<close>, \<open>Separator\<close>, \<open>MenuItemInner\<close> and \<open>Header\<close> with their
  props.
\<close>

datatype ctx =
    MenuStateContext tree_state
  | SeparatorContext attrs
  | TextContext attrs attrs
  | KeyboardContext attrs

datatype rnode =
    RFalse
  | RNull
  | RContent jsval
  | Host string attrs "rnode list"
  | Provider "ctx list" "rnode list"
  | MenuInnerC attrs collection jsval
  | MenuSectionC node
  | SeparatorC attrs
  | MenuItemInnerC node
  | HeaderC attrs "rnode list"

datatype error = Error string

section \<open>MenuTrigger: the trigger width\<close>

text \<open>
  \<open>offsetWidth + 'px'\<close>: the offset width of an element is a non-negative integer, and
  JavaScript writes such a number in decimal.
\<close>

definition digit :: "nat \<Rightarrow> char" where
  "digit d = ''0123456789'' ! d"

fun number_to_string :: "nat \<Rightarrow> string" where
  "number_to_string n =
     (if n < 10 then [digit n] else number_to_string (n div 10) @ [digit (n mod 10)])"

record element =
  offsetWidth :: nat

text \<open>
  The part of \<open>MenuTrigger\<close> that tracks the width: the state \<open>buttonWidth\<close> (initially
  \<open>null\<close>), the callback \<open>onResize\<close>, which reads \<open>ref.current\<close> when it runs, and the value
  published to \<open>PopoverContext\<close> on the render that follows.
\<close>

record trigger_state =
  buttonWidth :: "string option"

definition initial_trigger :: trigger_state where
  "initial_trigger = \<lparr>buttonWidth = None\<rparr>"

definition onResize :: "element option \<Rightarrow> trigger_state \<Rightarrow> trigger_state" where
  "onResize ref_current s =
     (case ref_current of
        Some el \<Rightarrow> s\<lparr>buttonWidth := Some (number_to_string (offsetWidth el) @ ''px'')\<rparr>
      | None \<Rightarrow> s)"

record popover_context =
  trigger :: string
  triggerRef :: jsval
  placement :: string
  style :: attrs

definition PopoverContext_value :: "trigger_state \<Rightarrow> popover_context" where
  "PopoverContext_value s =
     \<lparr>trigger = ''MenuTrigger'',
      triggerRef = JOpaque ''ref'',
      placement = ''bottom start'',
      style = [(''--trigger-width'', (case buttonWidth s of None \<Rightarrow> JNull | Some w \<Rightarrow> JStr w))]\<rparr>"

text \<open>
  Modelled from the spec: \<open>useResizeObserver\<close> (\<open>@react-aria/utils\<close>) is not among the
  sources. The spec says that the trigger subscribes to the resize events of its DOM node:
  the observer calls \<open>onResize\<close> once per resize, in order, and each call reads
  \<open>ref.current\<close> as it is then.
\<close>

fun resizes :: "element option list \<Rightarrow> trigger_state \<Rightarrow> trigger_state" where
  "resizes [] s = s"
| "resizes (r # rs) s = resizes rs (onResize r s)"

section \<open>Menu, MenuInner, MenuSection, MenuItemInner\<close>

text \<open>
  Modelled from the spec: \<open>useCachedChildren\<close> (\<open>./Collection\<close>) is not among the sources.
  The spec says that each child node is dispatched to a renderer keyed by its type and
  that the renderings come in the collection's order: the callback is applied to the
  items in order, and the first error it throws ends the render.
\<close>

fun useCachedChildren :: "'a list \<Rightarrow> ('a \<Rightarrow> error + 'b) \<Rightarrow> error + 'b list" where
  "useCachedChildren [] children = Inr []"
| "useCachedChildren (item # items) children =
     (case children item of
        Inl e \<Rightarrow> Inl e
      | Inr r \<Rightarrow> (case useCachedChildren items children of
                   Inl e \<Rightarrow> Inl e
                 | Inr rs \<Rightarrow> Inr (r # rs)))"

text \<open>
  Modelled from the spec: \<open>useTreeState\<close> (\<open>react-stately\<close>) is not among the sources. The
  spec says that \<open>MenuInner\<close> builds the tree state from the realized collection and that
  the state owns the selection manager: the state's collection is the collection passed
  in; the selection manager is a parameter.
\<close>

definition useTreeState :: "hooks \<Rightarrow> attrs \<Rightarrow> collection \<Rightarrow> tree_state" where
  "useTreeState h p c = \<lparr>collection = c, selectionManager = useSelection h p\<rparr>"

text \<open>
  Modelled from the spec: \<open>useRenderProps\<close> (\<open>./utils\<close>) is not among the sources. The spec
  says that class names, inline styles and content are supplied through render-prop
  callbacks receiving the current interaction state: a callback is called with the
  values, anything else is taken as it is, and the class name falls back to the default.
\<close>

definition call_render :: "jsval \<Rightarrow> item_render_props \<Rightarrow> jsval" where
  "call_render v values = (case v of JFun f \<Rightarrow> f values | _ \<Rightarrow> v)"

definition useRenderProps :: "attrs \<Rightarrow> item_render_props \<Rightarrow> attrs" where
  "useRenderProps p values =
     [(''className'', nullish (call_render (get p ''className'') values) (get p ''defaultClassName'')),
      (''style'', call_render (get p ''style'') values),
      (''children'', call_render (get p ''children'') values)]"

text \<open>
  \<open>MenuItemInner\<close>. The state comes from \<open>MenuStateContext\<close>, which \<open>MenuInner\<close> provides
  around its children; here it is an argument. The third argument of \<open>Host\<close> is the JSX
  children of the element.
\<close>

definition MenuItemInner_values :: "hooks \<Rightarrow> tree_state \<Rightarrow> node \<Rightarrow> item_render_props" where
  "MenuItemInner_values h state item =
     (let sts = states (useMenuItem h (key item) state) in
      item_states.extend sts
        \<lparr>isHovered = isFocused sts,
         item_render_props.isFocusVisible = isFocusVisible (useFocusRing h (key item)),
         item_render_props.selectionMode = selectionMode (selectionManager state),
         item_render_props.selectionBehavior = selectionBehavior (selectionManager state)\<rparr>)"

definition ElementType :: "node \<Rightarrow> string" where
  "ElementType item = (if truthy (get (props item) ''href'') then ''a'' else ''div'')"

definition MenuItemInner :: "hooks \<Rightarrow> tree_state \<Rightarrow> node \<Rightarrow> rnode" where
  "MenuItemInner h state item =
     (let ref = useObjectRef h (get (props item) ''ref'');
          aria = useMenuItem h (key item) state;
          sts = states aria;
          fr = useFocusRing h (key item);
          renderProps = useRenderProps
            (props item @
             [(''id'', JUndefined),
              (''children'', rendered item),
              (''defaultClassName'', JStr ''react-aria-MenuItem'')])
            (MenuItemInner_values h state item)
      in Host (ElementType item)
           (mergeProps h (menuItemProps aria) (focusProps fr) @
            renderProps @
            [(''ref'', ref),
             (''data-disabled'', js_or (JBool (isDisabled sts)) JUndefined),
             (''data-hovered'', js_or (JBool (isFocused sts)) JUndefined),
             (''data-focused'', js_or (JBool (isFocused sts)) JUndefined),
             (''data-focus-visible'', js_or (JBool (isFocusVisible fr)) JUndefined),
             (''data-pressed'', js_or (JBool (isPressed sts)) JUndefined),
             (''data-selected'', js_or (JBool (isSelected sts)) JUndefined),
             (''data-selection-mode'',
                (if selectionMode (selectionManager state) = ''none'' then JUndefined
                 else JStr (selectionMode (selectionManager state))))])
           [Provider
              [TextContext (labelProps aria) (descriptionProps aria),
               KeyboardContext (keyboardShortcutProps aria)]
              [RContent (get renderProps ''children'')]])"

text \<open>
  \<open>MenuSection\<close>: the callback that renders one child of the section, and the component.
  \<open>MenuInner\<close> passes only \<open>section\<close>, so \<open>className\<close> and \<open>style\<close> are \<open>undefined\<close> and
  \<open>otherProps\<close> is empty there.
\<close>

definition MenuSection_children :: "hooks \<Rightarrow> attrs \<Rightarrow> jsval \<Rightarrow> node \<Rightarrow> error + rnode" where
  "MenuSection_children h heading_props heading_ref item =
     (if type item = ''header'' then
        (let ref = get (props item) ''ref'';
             otherProps = filter (\<lambda>(k, v). k \<noteq> ''ref'') (props item)
         in Inr (HeaderC
                  (heading_props @ otherProps @ [(''ref'', mergeRefs h heading_ref ref)])
                  [RContent (rendered item)]))
      else if type item = ''item'' then Inr (MenuItemInnerC item)
      else Inl (Error (''Unsupported element type in Section: '' @ type item)))"

definition MenuSection :: "hooks \<Rightarrow> tree_state \<Rightarrow> node \<Rightarrow> jsval \<Rightarrow> jsval \<Rightarrow> attrs \<Rightarrow> error + rnode" where
  "MenuSection h state section className_p style_p otherProps =
     (let (headingRef, heading) = useSlot h (key section);
          aria = useMenuSection h heading (nullish (aria_label section) JUndefined)
      in case useCachedChildren (getChildren (collection state) (key section))
                (MenuSection_children h (headingProps aria) headingRef) of
           Inl e \<Rightarrow> Inl e
         | Inr children \<Rightarrow>
             Inr (Host ''section''
                   (filterDOMProps h otherProps @
                    groupProps aria @
                    [(''className'',
                        js_or (js_or className_p (get (props section) ''className''))
                          (JStr ''react-aria-Section'')),
                     (''style'', js_or style_p (get (props section) ''style'')),
                     (''ref'', get (props section) ''ref'')])
                   children))"

text \<open>\<open>MenuInner\<close>: the callback that renders one top-level node, and the component.\<close>

definition MenuInner_children :: "node \<Rightarrow> error + rnode" where
  "MenuInner_children item =
     (if type item = ''section'' then Inr (MenuSectionC item)
      else if type item = ''separator'' then Inr (SeparatorC (props item))
      else if type item = ''item'' then Inr (MenuItemInnerC item)
      else Inl (Error (''Unsupported node type in Menu: '' @ type item)))"

definition MenuInner_state :: "hooks \<Rightarrow> attrs \<Rightarrow> collection \<Rightarrow> tree_state" where
  "MenuInner_state h p c = useTreeState h (p @ [(''children'', JUndefined)]) c"

definition MenuInner :: "hooks \<Rightarrow> attrs \<Rightarrow> collection \<Rightarrow> jsval \<Rightarrow> error + rnode" where
  "MenuInner h p c ref =
     (let state = MenuInner_state h p c;
          menuProps = useMenu h p state
      in case useCachedChildren (nodes (collection state)) MenuInner_children of
           Inl e \<Rightarrow> Inl e
         | Inr children \<Rightarrow>
             Inr (Host ''div''
                   (filterDOMProps h p @
                    menuProps @
                    [(''ref'', ref),
                     (''slot'', js_or (get p ''slot'') JUndefined),
                     (''onScroll'', get p ''onScroll''),
                     (''style'', get p ''style''),
                     (''className'', nullish (get p ''className'') (JStr ''react-aria-Menu''))])
                   [Provider
                      [MenuStateContext state,
                       SeparatorContext [(''elementType'', JStr ''div'')]]
                      children]))"

text \<open>
  \<open>Menu\<close>: the props are those resolved by \<open>useContextProps\<close>, the portal and the collection
  are what \<open>useCollection\<close> returned. The result is the children of the fragment.
\<close>

definition Menu :: "attrs \<Rightarrow> jsval \<Rightarrow> jsval \<Rightarrow> collection \<Rightarrow> rnode list" where
  "Menu p ref portal c =
     [if size_c c > 0 then MenuInnerC p c ref else RFalse,
      RContent portal]"

section \<open>Rendering the element tree\<close>

text \<open>
  React renders nothing for \<open>false\<close>, \<open>null\<close>, \<open>undefined\<close> and booleans.
\<close>

fun renders_nothing :: "rnode \<Rightarrow> bool" where
  "renders_nothing RFalse = True"
| "renders_nothing RNull = True"
| "renders_nothing (RContent JUndefined) = True"
| "renders_nothing (RContent JNull) = True"
| "renders_nothing (RContent (JBool b)) = True"
| "renders_nothing r = False"

definition visible :: "rnode list \<Rightarrow> rnode list" where
  "visible rs = filter (\<lambda>r. \<not> renders_nothing r) rs"

text \<open>
  React replaces the element of a component by what the component's function returns, and
  an error thrown by one of them ends the whole render. \<open>Separator\<close> and \<open>Header\<close> are
  components of other files and stay as they are. \<open>MenuItemInner\<close> returns no further
  component of this file, \<open>MenuSection\<close> returns a \<open>section\<close> element around headers and
  items, \<open>MenuInner\<close> a \<open>div\<close> around a \<open>Provider\<close> around its children: the render goes
  down level by level.
\<close>

fun render_all :: "(rnode \<Rightarrow> error + rnode) \<Rightarrow> rnode list \<Rightarrow> error + rnode list" where
  "render_all f [] = Inr []"
| "render_all f (r # rs) =
     (case f r of
        Inl e \<Rightarrow> Inl e
      | Inr r' \<Rightarrow> (case render_all f rs of
                    Inl e \<Rightarrow> Inl e
                  | Inr rs' \<Rightarrow> Inr (r' # rs')))"

fun render_under :: "(rnode \<Rightarrow> error + rnode) \<Rightarrow> rnode \<Rightarrow> error + rnode" where
  "render_under f (Host t a cs) =
     (case render_all f cs of Inl e \<Rightarrow> Inl e | Inr cs' \<Rightarrow> Inr (Host t a cs'))"
| "render_under f (Provider v cs) =
     (case render_all f cs of Inl e \<Rightarrow> Inl e | Inr cs' \<Rightarrow> Inr (Provider v cs'))"
| "render_under f r = Inr r"

definition render_item :: "hooks \<Rightarrow> tree_state \<Rightarrow> rnode \<Rightarrow> error + rnode" where
  "render_item h state r =
     (case r of
        MenuItemInnerC item \<Rightarrow> Inr (MenuItemInner h state item)
      | _ \<Rightarrow> Inr r)"

definition render_child :: "hooks \<Rightarrow> tree_state \<Rightarrow> rnode \<Rightarrow> error + rnode" where
  "render_child h state r =
     (case r of
        MenuSectionC section \<Rightarrow>
          (case MenuSection h state section JUndefined JUndefined [] of
             Inl e \<Rightarrow> Inl e
           | Inr s \<Rightarrow> render_under (render_item h state) s)
      | MenuItemInnerC item \<Rightarrow> Inr (MenuItemInner h state item)
      | _ \<Rightarrow> Inr r)"

definition render_MenuInner :: "hooks \<Rightarrow> attrs \<Rightarrow> collection \<Rightarrow> jsval \<Rightarrow> error + rnode" where
  "render_MenuInner h p c ref =
     (case MenuInner h p c ref of
        Inl e \<Rightarrow> Inl e
      | Inr d \<Rightarrow> render_under (render_under (render_child h (MenuInner_state h p c))) d)"

definition render_root :: "hooks \<Rightarrow> rnode \<Rightarrow> error + rnode" where
  "render_root h r =
     (case r of
        MenuInnerC p c ref \<Rightarrow> render_MenuInner h p c ref
      | _ \<Rightarrow> Inr r)"

definition render_Menu :: "hooks \<Rightarrow> attrs \<Rightarrow> jsval \<Rightarrow> jsval \<Rightarrow> collection \<Rightarrow> error + rnode list" where
  "render_Menu h p ref portal c = render_all (render_root h) (visible (Menu p ref portal c))"

text \<open>The tag and the props of a DOM element.\<close>

fun host_tag :: "rnode \<Rightarrow> string" where
  "host_tag (Host t a cs) = t"
| "host_tag r = []"

fun host_attrs :: "rnode \<Rightarrow> attrs" where
  "host_attrs (Host t a cs) = a"
| "host_attrs r = []"

text \<open>The nodes that the \<open>MenuItemInner\<close> elements of a tree were made for.\<close>

fun item_elements :: "rnode \<Rightarrow> node list" where
  "item_elements (MenuItemInnerC item) = [item]"
| "item_elements (Host t a cs) = concat (map item_elements cs)"
| "item_elements (Provider v cs) = concat (map item_elements cs)"
| "item_elements (HeaderC a cs) = concat (map item_elements cs)"
| "item_elements r = []"

text \<open>
  Modelled from the spec: the collection class (\<open>BaseCollection\<close>, \<open>./Collection\<close>) is not
  among the sources. The spec speaks of a realized collection "with zero items" and "with
  one or more items" where the code tests \<open>collection.size > 0\<close>: the size of a realized
  collection is zero exactly when iterating it gives no node.
\<close>

definition realized :: "collection \<Rightarrow> bool" where
  "realized c = ((size_c c = 0) = (nodes c = []))"

text \<open>
  What it is for \<open>r\<close> to be the rendering of the top-level node \<open>n\<close>: a section is
  rendered by \<open>MenuSection\<close> (and its items by \<open>MenuItemInner\<close>), a separator by
  \<open>Separator\<close> with the node's props, an item by \<open>MenuItemInner\<close>.
\<close>

definition rendering_of :: "hooks \<Rightarrow> tree_state \<Rightarrow> node \<Rightarrow> rnode \<Rightarrow> bool" where
  "rendering_of h state n r =
     (if type n = ''section'' then
        (case MenuSection h state n JUndefined JUndefined [] of
           Inl e \<Rightarrow> False
         | Inr s \<Rightarrow> render_under (render_item h state) s = Inr r)
      else if type n = ''separator'' then r = SeparatorC (props n)
      else if type n = ''item'' then r = MenuItemInner h state n
      else False)"

text \<open>The node types that the two callbacks have a case for.\<close>

definition menu_types :: "string set" where
  "menu_types = {''section'', ''separator'', ''item''}"

definition section_types :: "string set" where
  "section_types = {''header'', ''item''}"

section \<open>A sample menu\<close>

definition sample_hooks :: hooks where
  "sample_hooks =
     \<lparr>useSelection = (\<lambda>p. \<lparr>selectionMode = ''single'', selectionBehavior = ''toggle''\<rparr>),
      useMenu = (\<lambda>p state. [(''role'', JStr ''menu'')]),
      useMenuItem = (\<lambda>k state.
         \<lparr>menuItemProps = [(''role'', JStr ''menuitem'')],
          labelProps = [], descriptionProps = [], keyboardShortcutProps = [],
          states = \<lparr>isFocused = (k = ''copy''), isSelected = False,
                    isPressed = False, isDisabled = (k = ''paste'')\<rparr>\<rparr>),
      useFocusRing = (\<lambda>k. \<lparr>isFocusVisible = (k = ''copy''), focusProps = []\<rparr>),
      useSlot = (\<lambda>k. (JOpaque ''headingRef'', JBool True)),
      useMenuSection = (\<lambda>heading label.
         \<lparr>headingProps = [(''role'', JStr ''presentation'')],
          groupProps = [(''role'', JStr ''group'')]\<rparr>),
      useObjectRef = (\<lambda>r. r),
      mergeProps = (\<lambda>a b. a @ b),
      mergeRefs = (\<lambda>a b. a),
      filterDOMProps = (\<lambda>p. [])\<rparr>"

definition mk_node :: "string \<Rightarrow> key \<Rightarrow> attrs \<Rightarrow> node" where
  "mk_node t k p =
     \<lparr>type = t, key = k, props = p, rendered = JOpaque k, aria_label = JUndefined\<rparr>"

definition copy_item :: node where
  "copy_item = mk_node ''item'' ''copy'' []"

definition paste_item :: node where
  "paste_item = mk_node ''item'' ''paste'' [(''href'', JStr ''/paste'')]"

definition empty_href_item :: node where
  "empty_href_item = mk_node ''item'' ''home'' [(''href'', JStr [])]"

definition styled_item :: node where
  "styled_item =
     mk_node ''item'' ''copy''
       [(''className'', JFun (\<lambda>v. if isHovered v then JStr ''hovered'' else JStr ''plain''))]"

definition separator_node :: node where
  "separator_node = mk_node ''separator'' ''sep'' []"

definition section_node :: node where
  "section_node = mk_node ''section'' ''more'' []"

definition header_node :: node where
  "header_node = mk_node ''header'' ''title'' []"

definition sample_collection :: collection where
  "sample_collection =
     \<lparr>nodes = [copy_item, separator_node, section_node],
      getChildren = (\<lambda>k. if k = ''more'' then [header_node, paste_item] else []),
      size_c = 5\<rparr>"

definition sample_state :: tree_state where
  "sample_state = MenuInner_state sample_hooks [] sample_collection"

text \<open>A menu with a header at the top level, and one with a separator inside a section.\<close>

definition header_at_top :: collection where
  "header_at_top = \<lparr>nodes = [header_node], getChildren = (\<lambda>k. []), size_c = 1\<rparr>"

definition separator_in_section :: collection where
  "separator_in_section =
     \<lparr>nodes = [section_node],
      getChildren = (\<lambda>k. if k = ''more'' then [separator_node] else []),
      size_c = 2\<rparr>"

definition empty_collection :: collection where
  "empty_collection = \<lparr>nodes = [], getChildren = (\<lambda>k. []), size_c = 0\<rparr>"

section \<open>Running a callback over a list of nodes\<close>

lemma useCachedChildren_Inr:
  "useCachedChildren xs f = Inr ys \<Longrightarrow> list_all2 (\<lambda>x y. f x = Inr y) xs ys"
  by (induction xs arbitrary: ys) (auto split: sum.splits)

lemma useCachedChildren_Inl:
  "useCachedChildren xs f = Inl e \<Longrightarrow> \<exists>x \<in> set xs. f x = Inl e"
  by (induction xs) (auto split: sum.splits)

lemma useCachedChildren_ok:
  "\<forall>x \<in> set xs. \<exists>y. f x = Inr y \<Longrightarrow> \<exists>ys. useCachedChildren xs f = Inr ys"
  by (induction xs) (auto split: sum.splits)

lemma useCachedChildren_fails:
  "x \<in> set xs \<Longrightarrow> f x = Inl e \<Longrightarrow> \<exists>e'. useCachedChildren xs f = Inl e'"
  by (induction xs) (auto split: sum.splits)

lemma render_all_Inr:
  "render_all f xs = Inr ys \<Longrightarrow> list_all2 (\<lambda>x y. f x = Inr y) xs ys"
  by (induction xs arbitrary: ys) (auto split: sum.splits)

lemma render_all_ok:
  "\<forall>x \<in> set xs. \<exists>y. f x = Inr y \<Longrightarrow> \<exists>ys. render_all f xs = Inr ys"
  by (induction xs) (auto split: sum.splits)

section \<open>Reading props\<close>

lemma get_append:
  "get (a @ b) k = (case map_of (rev b) k of None \<Rightarrow> get a k | Some v \<Rightarrow> v)"
  by (simp add: get_def map_add_def split: option.splits)

lemma js_or_flag: "js_or (JBool b) JUndefined = (if b then JBool True else JUndefined)"
  by (simp add: js_or_def)

lemma MenuItemInner_tag: "host_tag (MenuItemInner h state item) = ElementType item"
  by (simp add: MenuItemInner_def Let_def)

lemma data_disabled:
  "get (host_attrs (MenuItemInner h state item)) ''data-disabled'' =
     (if isDisabled (states (useMenuItem h (key item) state)) then JBool True else JUndefined)"
  by (simp add: MenuItemInner_def Let_def get_append js_or_flag)

lemma data_hovered:
  "get (host_attrs (MenuItemInner h state item)) ''data-hovered'' =
     (if isFocused (states (useMenuItem h (key item) state)) then JBool True else JUndefined)"
  by (simp add: MenuItemInner_def Let_def get_append js_or_flag)

lemma data_focused:
  "get (host_attrs (MenuItemInner h state item)) ''data-focused'' =
     (if isFocused (states (useMenuItem h (key item) state)) then JBool True else JUndefined)"
  by (simp add: MenuItemInner_def Let_def get_append js_or_flag)

lemma data_focus_visible:
  "get (host_attrs (MenuItemInner h state item)) ''data-focus-visible'' =
     (if isFocusVisible (useFocusRing h (key item)) then JBool True else JUndefined)"
  by (simp add: MenuItemInner_def Let_def get_append js_or_flag)

lemma data_pressed:
  "get (host_attrs (MenuItemInner h state item)) ''data-pressed'' =
     (if isPressed (states (useMenuItem h (key item) state)) then JBool True else JUndefined)"
  by (simp add: MenuItemInner_def Let_def get_append js_or_flag)

lemma data_selected:
  "get (host_attrs (MenuItemInner h state item)) ''data-selected'' =
     (if isSelected (states (useMenuItem h (key item) state)) then JBool True else JUndefined)"
  by (simp add: MenuItemInner_def Let_def get_append js_or_flag)

lemma data_selection_mode:
  "get (host_attrs (MenuItemInner h state item)) ''data-selection-mode'' =
     (if selectionMode (selectionManager state) = ''none'' then JUndefined
      else JStr (selectionMode (selectionManager state)))"
  by (simp add: MenuItemInner_def Let_def get_append)

lemma className_callback:
  "get (props item) ''className'' = JFun f \<Longrightarrow>
     get (host_attrs (MenuItemInner h state item)) ''className'' =
       nullish (f (MenuItemInner_values h state item)) (JStr ''react-aria-MenuItem'')"
  by (simp add: MenuItemInner_def Let_def get_append useRenderProps_def call_render_def)

lemma sample_states:
  "states (useMenuItem sample_hooks k st) =
     \<lparr>isFocused = (k = ''copy''), isSelected = False, isPressed = False,
      isDisabled = (k = ''paste'')\<rparr>"
  "isFocusVisible (useFocusRing sample_hooks k) = (k = ''copy'')"
  "selectionMode (selectionManager sample_state) = ''single''"
  by (simp_all add: sample_hooks_def sample_state_def MenuInner_state_def useTreeState_def)

lemma sample_keys:
  "key copy_item = ''copy''" "key paste_item = ''paste''" "key empty_href_item = ''home''"
  "props copy_item = []" "props paste_item = [(''href'', JStr ''/paste'')]"
  "props empty_href_item = [(''href'', JStr [])]"
  "key section_node = ''more''" "props section_node = []"
  "type copy_item = ''item''" "type paste_item = ''item''" "type separator_node = ''separator''"
  "type section_node = ''section''" "type header_node = ''header''"
  by (simp_all add: copy_item_def paste_item_def empty_href_item_def separator_node_def
      section_node_def header_node_def mk_node_def)

lemma MenuInner_state_collection: "collection (MenuInner_state h p c) = c"
  by (simp add: MenuInner_state_def useTreeState_def)

lemma sample_collection_simps:
  "nodes sample_collection = [copy_item, separator_node, section_node]"
  "getChildren sample_collection ''more'' = [header_node, paste_item]"
  "size_c sample_collection = 5"
  "collection sample_state = sample_collection"
  by (simp_all add: sample_collection_def sample_state_def MenuInner_state_collection)

section \<open>MenuTrigger\<close>

lemma resizes_snoc: "resizes (rs @ [r]) s = onResize r (resizes rs s)"
  by (induction rs arbitrary: s) simp_all

text \<open>
  C10: after any sequence of resizes, once the callback of the last one has read the
  trigger element from the ref, the \<open>--trigger-width\<close> published in the popover context is
  that element's offset width followed by \<open>px\<close>, whatever was published before.
\<close>

theorem trigger_width_after_resize:
  "get (style (PopoverContext_value (resizes (rs @ [Some el]) s))) ''--trigger-width'' =
     JStr (number_to_string (offsetWidth el) @ ''px'')"
  by (simp add: resizes_snoc onResize_def PopoverContext_value_def get_def)

theorem trigger_width_after_resize_witness:
  "get (style (PopoverContext_value
      (resizes [Some \<lparr>offsetWidth = 80\<rparr>, None, Some \<lparr>offsetWidth = 120\<rparr>] initial_trigger)))
     ''--trigger-width'' = JStr ''120px''"
  using trigger_width_after_resize [of "[Some \<lparr>offsetWidth = 80\<rparr>, None]" "\<lparr>offsetWidth = 120\<rparr>" initial_trigger]
  by (simp add: digit_def)

section \<open>The node types of MenuInner\<close>

lemma MenuInner_children_Inl:
  "MenuInner_children n = Inl e \<Longrightarrow>
     type n \<notin> menu_types \<and>
     e = Error (''Unsupported node type in Menu: '' @ type n)"
  by (auto simp add: MenuInner_children_def menu_types_def split: if_splits)

lemma MenuInner_children_Inr:
  "type n \<in> menu_types \<Longrightarrow> \<exists>r. MenuInner_children n = Inr r"
  by (auto simp add: MenuInner_children_def menu_types_def)

lemma MenuInner_children_unsupported:
  "type n \<notin> menu_types \<Longrightarrow>
     MenuInner_children n = Inl (Error (''Unsupported node type in Menu: '' @ type n))"
  by (simp add: MenuInner_children_def menu_types_def)

lemma MenuInner_Inl:
  "(MenuInner h p c ref = Inl e) =
     (useCachedChildren (nodes (collection (MenuInner_state h p c))) MenuInner_children = Inl e)"
  by (simp add: MenuInner_def Let_def split: sum.splits)

lemma MenuInner_Inr:
  "MenuInner h p c ref = Inr d \<Longrightarrow>
     \<exists>a children.
       d = Host ''div'' a
             [Provider [MenuStateContext (MenuInner_state h p c),
                        SeparatorContext [(''elementType'', JStr ''div'')]] children] \<and>
       useCachedChildren (nodes (collection (MenuInner_state h p c))) MenuInner_children = Inr children"
  by (auto simp add: MenuInner_def Let_def split: sum.splits)

lemma MenuInner_fails:
  assumes "MenuInner h p c ref = Inl e"
  shows "\<exists>m \<in> set (nodes c). type m \<notin> menu_types \<and>
           e = Error (''Unsupported node type in Menu: '' @ type m)"
proof -
  from assms have "useCachedChildren (nodes c) MenuInner_children = Inl e"
    by (simp add: MenuInner_Inl MenuInner_state_collection)
  then obtain m where "m \<in> set (nodes c)" "MenuInner_children m = Inl e"
    using useCachedChildren_Inl [where f = MenuInner_children] by blast
  then show ?thesis using MenuInner_children_Inl [of m e] by blast
qed

lemma MenuInner_fails_if:
  assumes "m \<in> set (nodes c)" "type m \<notin> menu_types"
  shows "\<exists>e. MenuInner h p c ref = Inl e"
proof -
  have "\<exists>e'. useCachedChildren (nodes c) MenuInner_children = Inl e'"
    by (rule useCachedChildren_fails [where f = MenuInner_children, OF assms(1)
          MenuInner_children_unsupported [OF assms(2)]])
  then show ?thesis
    by (simp add: MenuInner_Inl MenuInner_state_collection)
qed

text \<open>
  C3: the callback of \<open>MenuInner\<close> throws "Unsupported node type in Menu: " followed by
  the node's type exactly for a node whose type is not \<open>section\<close>, \<open>separator\<close> or \<open>item\<close>,
  and returns an element for a node of one of these types; \<open>MenuInner\<close> throws exactly
  when a top-level node has another type, and the error it throws names the type of such
  a node.
\<close>

theorem MenuInner_unsupported_node_type:
  "(MenuInner_children n = Inl (Error (''Unsupported node type in Menu: '' @ type n))) =
     (type n \<notin> menu_types) \<and>
   (type n \<in> menu_types \<longrightarrow> (\<exists>r. MenuInner_children n = Inr r)) \<and>
   ((\<exists>e. MenuInner h p c ref = Inl e) =
      (\<exists>m \<in> set (nodes c). type m \<notin> menu_types)) \<and>
   (\<forall>e. MenuInner h p c ref = Inl e \<longrightarrow>
      (\<exists>m \<in> set (nodes c). type m \<notin> menu_types \<and>
         e = Error (''Unsupported node type in Menu: '' @ type m)))"
proof (intro conjI)
  show "(MenuInner_children n = Inl (Error (''Unsupported node type in Menu: '' @ type n))) =
     (type n \<notin> menu_types)"
    by (simp add: MenuInner_children_def menu_types_def)
  show "type n \<in> menu_types \<longrightarrow> (\<exists>r. MenuInner_children n = Inr r)"
    by (simp add: MenuInner_children_Inr)
  show "\<forall>e. MenuInner h p c ref = Inl e \<longrightarrow>
      (\<exists>m \<in> set (nodes c). type m \<notin> menu_types \<and>
         e = Error (''Unsupported node type in Menu: '' @ type m))"
  proof (intro allI impI)
    fix e assume "MenuInner h p c ref = Inl e"
    from MenuInner_fails [OF this] show "\<exists>m \<in> set (nodes c). type m \<notin> menu_types \<and>
         e = Error (''Unsupported node type in Menu: '' @ type m)" .
  qed
  show "(\<exists>e. MenuInner h p c ref = Inl e) = (\<exists>m \<in> set (nodes c). type m \<notin> menu_types)"
  proof
    assume "\<exists>e. MenuInner h p c ref = Inl e"
    then obtain e where "MenuInner h p c ref = Inl e" ..
    from MenuInner_fails [OF this] show "\<exists>m \<in> set (nodes c). type m \<notin> menu_types"
      by blast
  next
    assume "\<exists>m \<in> set (nodes c). type m \<notin> menu_types"
    then obtain m where "m \<in> set (nodes c)" "type m \<notin> menu_types" by blast
    then show "\<exists>e. MenuInner h p c ref = Inl e"
      by (rule MenuInner_fails_if)
  qed
qed

theorem MenuInner_unsupported_node_type_witness:
  "type header_node \<notin> menu_types \<and>
   MenuInner_children header_node = Inl (Error ''Unsupported node type in Menu: header'') \<and>
   type copy_item \<in> menu_types \<and>
   (\<exists>r. MenuInner_children copy_item = Inr r) \<and>
   MenuInner sample_hooks [] header_at_top JNull =
     Inl (Error ''Unsupported node type in Menu: header'')"
proof -
  have a: "type header_node \<notin> menu_types" "type copy_item \<in> menu_types"
    by (simp_all add: sample_keys menu_types_def)
  have b: "nodes header_at_top = [header_node]"
    by (simp add: header_at_top_def)
  from a(1) b have "\<exists>m \<in> set (nodes header_at_top). type m \<notin> menu_types" by simp
  with MenuInner_unsupported_node_type [of header_node sample_hooks "[]" header_at_top JNull]
  obtain e where e: "MenuInner sample_hooks [] header_at_top JNull = Inl e" by blast
  with MenuInner_unsupported_node_type [of header_node sample_hooks "[]" header_at_top JNull] b
  have "e = Error (''Unsupported node type in Menu: '' @ type header_node)" by auto
  with e a MenuInner_unsupported_node_type [of header_node] MenuInner_unsupported_node_type [of copy_item] show ?thesis
    by (simp add: sample_keys)
qed

section \<open>The child types of MenuSection\<close>

lemma MenuSection_children_Inl:
  "MenuSection_children h hp hr m = Inl e \<Longrightarrow>
     type m \<notin> section_types \<and>
     e = Error (''Unsupported element type in Section: '' @ type m)"
  by (auto simp add: MenuSection_children_def section_types_def Let_def split: if_splits)

lemma MenuSection_children_Inr:
  "type m \<in> section_types \<Longrightarrow> \<exists>r. MenuSection_children h hp hr m = Inr r"
  by (auto simp add: MenuSection_children_def section_types_def Let_def)

lemma MenuSection_children_unsupported:
  "type m \<notin> section_types \<Longrightarrow>
     MenuSection_children h hp hr m =
       Inl (Error (''Unsupported element type in Section: '' @ type m))"
  by (simp add: MenuSection_children_def section_types_def)

lemma MenuSection_cases:
  "MenuSection h st s cn sty op =
     (case useCachedChildren (getChildren (collection st) (key s))
             (MenuSection_children h
                (headingProps (useMenuSection h (snd (useSlot h (key s)))
                   (nullish (aria_label s) JUndefined)))
                (fst (useSlot h (key s)))) of
        Inl e \<Rightarrow> Inl e
      | Inr cs \<Rightarrow> Inr (Host ''section''
           (filterDOMProps h op @ groupProps (useMenuSection h (snd (useSlot h (key s)))
               (nullish (aria_label s) JUndefined)) @
            [(''className'', js_or (js_or cn (get (props s) ''className''))
                 (JStr ''react-aria-Section'')),
             (''style'', js_or sty (get (props s) ''style'')),
             (''ref'', get (props s) ''ref'')]) cs))"
  by (simp add: MenuSection_def Let_def case_prod_beta)

lemma MenuSection_Inl:
  "MenuSection h st s cn sty op = Inl e \<Longrightarrow>
     \<exists>hp hr. useCachedChildren (getChildren (collection st) (key s))
                (MenuSection_children h hp hr) = Inl e"
  by (auto simp add: MenuSection_def Let_def split: sum.splits prod.splits)

lemma MenuSection_Inr:
  "MenuSection h st s cn sty op = Inr d \<Longrightarrow>
     \<exists>a cs hp hr. d = Host ''section'' a cs \<and>
       useCachedChildren (getChildren (collection st) (key s))
         (MenuSection_children h hp hr) = Inr cs"
  by (auto simp add: MenuSection_def Let_def split: sum.splits prod.splits)

lemma MenuSection_fails:
  assumes "MenuSection h st s cn sty op = Inl e"
  shows "\<exists>m \<in> set (getChildren (collection st) (key s)). type m \<notin> section_types \<and>
           e = Error (''Unsupported element type in Section: '' @ type m)"
proof -
  from MenuSection_Inl [OF assms] obtain hp hr where
    "useCachedChildren (getChildren (collection st) (key s))
       (MenuSection_children h hp hr) = Inl e" by blast
  then obtain m where m: "m \<in> set (getChildren (collection st) (key s))"
      "MenuSection_children h hp hr m = Inl e"
    using useCachedChildren_Inl [where f = "MenuSection_children h hp hr"] by blast
  from MenuSection_children_Inl [OF m(2)] m(1) show ?thesis by blast
qed

lemma MenuSection_fails_if:
  assumes "m \<in> set (getChildren (collection st) (key s))" "type m \<notin> section_types"
  shows "\<exists>e. MenuSection h st s cn sty op = Inl e"
proof -
  define hp where "hp = headingProps (useMenuSection h (snd (useSlot h (key s)))
                   (nullish (aria_label s) JUndefined))"
  define hr where "hr = fst (useSlot h (key s))"
  have "\<exists>e'. useCachedChildren (getChildren (collection st) (key s))
            (MenuSection_children h hp hr) = Inl e'"
    by (rule useCachedChildren_fails [where f = "MenuSection_children h hp hr", OF assms(1)
          MenuSection_children_unsupported [OF assms(2)]])
  then show ?thesis unfolding hp_def hr_def by (auto simp add: MenuSection_cases)
qed

lemma MenuSection_ok:
  assumes "\<forall>m \<in> set (getChildren (collection st) (key s)). type m \<in> section_types"
  shows "\<exists>a cs. MenuSection h st s cn sty op = Inr (Host ''section'' a cs)"
proof (cases "MenuSection h st s cn sty op")
  case (Inl e)
  from MenuSection_fails [OF Inl] assms show ?thesis by blast
next
  case (Inr d)
  from MenuSection_Inr [OF Inr] Inr show ?thesis by blast
qed

text \<open>
  C4: the callback of \<open>MenuSection\<close> throws an error whose message ends with the child's
  type exactly for a child whose type is not \<open>header\<close> or \<open>item\<close>, and returns an element
  for a child of one of these types; \<open>MenuSection\<close> throws exactly when a child of the
  section has another type, and the error it throws names the type of such a child.
\<close>

theorem MenuSection_unsupported_child_type:
  "(MenuSection_children h hp hr item =
      Inl (Error (''Unsupported element type in Section: '' @ type item))) =
     (type item \<notin> section_types) \<and>
   (type item \<in> section_types \<longrightarrow> (\<exists>r. MenuSection_children h hp hr item = Inr r)) \<and>
   ((\<exists>e. MenuSection h state section cn sty op = Inl e) =
      (\<exists>m \<in> set (getChildren (collection state) (key section)). type m \<notin> section_types)) \<and>
   (\<forall>e. MenuSection h state section cn sty op = Inl e \<longrightarrow>
      (\<exists>m \<in> set (getChildren (collection state) (key section)). type m \<notin> section_types \<and>
         e = Error (''Unsupported element type in Section: '' @ type m)))"
proof (intro conjI)
  show "(MenuSection_children h hp hr item =
      Inl (Error (''Unsupported element type in Section: '' @ type item))) =
     (type item \<notin> section_types)"
    by (simp add: MenuSection_children_def section_types_def Let_def)
  show "type item \<in> section_types \<longrightarrow> (\<exists>r. MenuSection_children h hp hr item = Inr r)"
    by (simp add: MenuSection_children_Inr)
  show "\<forall>e. MenuSection h state section cn sty op = Inl e \<longrightarrow>
      (\<exists>m \<in> set (getChildren (collection state) (key section)). type m \<notin> section_types \<and>
         e = Error (''Unsupported element type in Section: '' @ type m))"
    using MenuSection_fails by blast
  show "(\<exists>e. MenuSection h state section cn sty op = Inl e) =
      (\<exists>m \<in> set (getChildren (collection state) (key section)). type m \<notin> section_types)"
  proof
    assume "\<exists>e. MenuSection h state section cn sty op = Inl e"
    then obtain e where "MenuSection h state section cn sty op = Inl e" ..
    from MenuSection_fails [OF this]
    show "\<exists>m \<in> set (getChildren (collection state) (key section)). type m \<notin> section_types"
      by blast
  next
    assume "\<exists>m \<in> set (getChildren (collection state) (key section)). type m \<notin> section_types"
    then obtain m where "m \<in> set (getChildren (collection state) (key section))"
      "type m \<notin> section_types" by blast
    then show "\<exists>e. MenuSection h state section cn sty op = Inl e"
      by (rule MenuSection_fails_if)
  qed
qed

theorem MenuSection_unsupported_child_type_witness:
  "type separator_node \<notin> section_types \<and>
   MenuSection_children sample_hooks [] JNull separator_node =
     Inl (Error ''Unsupported element type in Section: separator'') \<and>
   type header_node \<in> section_types \<and>
   (\<exists>r. MenuSection_children sample_hooks [] JNull header_node = Inr r) \<and>
   MenuSection sample_hooks (MenuInner_state sample_hooks [] separator_in_section)
       section_node JUndefined JUndefined [] =
     Inl (Error ''Unsupported element type in Section: separator'')"
proof -
  let ?st = "MenuInner_state sample_hooks [] separator_in_section"
  have a: "type separator_node \<notin> section_types" "type header_node \<in> section_types"
    by (simp_all add: sample_keys section_types_def)
  have b: "getChildren (collection ?st) (key section_node) = [separator_node]"
    by (simp add: separator_in_section_def MenuInner_state_collection sample_keys)
  note t = MenuSection_unsupported_child_type [of sample_hooks "[]" JNull separator_node ?st section_node JUndefined JUndefined "[]"]
  from a(1) b have "\<exists>m \<in> set (getChildren (collection ?st) (key section_node)).
      type m \<notin> section_types" by simp
  with t obtain e where e: "MenuSection sample_hooks ?st section_node JUndefined JUndefined [] = Inl e"
    by blast
  with t b have "e = Error (''Unsupported element type in Section: '' @ type separator_node)"
    by auto
  with e a t MenuSection_unsupported_child_type [of sample_hooks "[]" JNull header_node] show ?thesis
    by (simp add: sample_keys)
qed

section \<open>Menu\<close>

lemma render_item_total: "\<exists>r'. render_item h st r = Inr r'"
  by (cases r) (simp_all add: render_item_def)

lemma render_items_total: "\<exists>rs'. render_all (render_item h st) rs = Inr rs'"
  by (rule render_all_ok) (simp add: render_item_total)

lemma render_child_of_node:
  assumes "type n \<in> menu_types"
    and "type n = ''section'' \<longrightarrow>
           (\<forall>m \<in> set (getChildren (collection st) (key n)). type m \<in> section_types)"
  shows "\<exists>r r'. MenuInner_children n = Inr r \<and> render_child h st r = Inr r' \<and>
           rendering_of h st n r'"
proof -
  from assms(1) consider "type n = ''section''"
    | "type n \<noteq> ''section''" "type n = ''separator''"
    | "type n \<noteq> ''section''" "type n \<noteq> ''separator''" "type n = ''item''"
    by (auto simp add: menu_types_def)
  then show ?thesis
  proof cases
    case 1
    with assms(2) obtain a cs where
      s: "MenuSection h st n JUndefined JUndefined [] = Inr (Host ''section'' a cs)"
      using MenuSection_ok [of st n h JUndefined JUndefined "[]"] by blast
    obtain cs' where "render_all (render_item h st) cs = Inr cs'"
      using render_items_total by blast
    with 1 s show ?thesis
      by (simp add: MenuInner_children_def render_child_def rendering_of_def)
  next
    case 2
    then show ?thesis
      by (simp add: MenuInner_children_def render_child_def rendering_of_def)
  next
    case 3
    then show ?thesis
      by (simp add: MenuInner_children_def render_child_def rendering_of_def)
  qed
qed

lemma render_children:
  assumes "\<forall>n \<in> set xs. type n \<in> menu_types"
    and "\<forall>n \<in> set xs. type n = ''section'' \<longrightarrow>
           (\<forall>m \<in> set (getChildren (collection st) (key n)). type m \<in> section_types)"
  shows "\<exists>cs cs'. useCachedChildren xs MenuInner_children = Inr cs \<and>
           render_all (render_child h st) cs = Inr cs' \<and>
           list_all2 (rendering_of h st) xs cs'"
  using assms
proof (induction xs)
  case Nil
  then show ?case by simp
next
  case (Cons n xs)
  then obtain cs cs' where ih: "useCachedChildren xs MenuInner_children = Inr cs"
      "render_all (render_child h st) cs = Inr cs'" "list_all2 (rendering_of h st) xs cs'"
    by auto
  from Cons.prems obtain r r' where "MenuInner_children n = Inr r"
      "render_child h st r = Inr r'" "rendering_of h st n r'"
    using render_child_of_node [of n st h] by auto
  with ih show ?case by simp
qed

lemma render_root_content: "render_all (render_root h) (visible [RContent v]) = Inr (visible [RContent v])"
  by (cases v) (simp_all add: visible_def render_root_def)

lemma visible_content_no_host: "r \<in> set (visible [RContent v]) \<Longrightarrow> host_tag r = []"
  by (auto simp add: visible_def split: if_splits)

text \<open>
  C1, as stated: for every realized collection with one or more top-level nodes the render
  produces one menu container. A collection whose only top-level node is a header, and one
  whose section holds a separator, are such collections, and rendering them throws.
\<close>

theorem Menu_unsupported_type_counterexample:
  "realized header_at_top \<and> nodes header_at_top \<noteq> [] \<and>
   render_Menu sample_hooks [] JNull JNull header_at_top =
     Inl (Error ''Unsupported node type in Menu: header'') \<and>
   realized separator_in_section \<and> nodes separator_in_section \<noteq> [] \<and>
   render_Menu sample_hooks [] JNull JNull separator_in_section =
     Inl (Error ''Unsupported element type in Section: separator'')"
  by (simp add: realized_def header_at_top_def separator_in_section_def render_Menu_def
      Menu_def visible_def render_root_def render_MenuInner_def MenuInner_def Let_def
      MenuInner_state_collection MenuInner_children_def render_child_def MenuSection_cases
      MenuSection_children_def sample_keys)

text \<open>
  C1, amended: for every realized collection with one or more top-level nodes, all of type
  \<open>section\<close>, \<open>separator\<close> or \<open>item\<close>, whose sections have only children of type \<open>header\<close> or
  \<open>item\<close>, rendering the Menu gives exactly one menu container (followed only by the
  portal, when there is one), and the container holds, around its \<open>Provider\<close>, one
  rendering for every top-level node, in the order of the collection: a section by
  \<open>MenuSection\<close>, a separator by \<open>Separator\<close>, an item by \<open>MenuItemInner\<close>.
\<close>

theorem Menu_renders_one_container:
  assumes "realized c" and "nodes c \<noteq> []"
    and "\<forall>n \<in> set (nodes c). type n \<in> menu_types"
    and "\<forall>n \<in> set (nodes c). type n = ''section'' \<longrightarrow>
           (\<forall>m \<in> set (getChildren c (key n)). type m \<in> section_types)"
  shows "\<exists>a children.
           render_Menu h p ref portal c =
             Inr (Host ''div'' a
                    [Provider [MenuStateContext (MenuInner_state h p c),
                               SeparatorContext [(''elementType'', JStr ''div'')]]
                       children]
                  # visible [RContent portal]) \<and>
           list_all2 (rendering_of h (MenuInner_state h p c)) (nodes c) children \<and>
           (\<forall>r \<in> set (visible [RContent portal]). host_tag r \<noteq> ''div'')"
proof -
  let ?st = "MenuInner_state h p c"
  have col: "collection ?st = c" by (rule MenuInner_state_collection)
  from assms(1,2) have size: "size_c c > 0" by (simp add: realized_def)
  from assms(3,4) col obtain cs cs' where cs:
      "useCachedChildren (nodes c) MenuInner_children = Inr cs"
      "render_all (render_child h ?st) cs = Inr cs'"
      "list_all2 (rendering_of h ?st) (nodes c) cs'"
    using render_children [of "nodes c" ?st h] by auto
  define a where "a = filterDOMProps h p @ useMenu h p ?st @
     [(''ref'', ref), (''slot'', js_or (get p ''slot'') JUndefined),
      (''onScroll'', get p ''onScroll''), (''style'', get p ''style''),
      (''className'', nullish (get p ''className'') (JStr ''react-aria-Menu''))]"
  have inner: "render_MenuInner h p c ref =
      Inr (Host ''div'' a [Provider [MenuStateContext ?st,
             SeparatorContext [(''elementType'', JStr ''div'')]] cs'])"
    using cs(1,2) by (simp add: render_MenuInner_def MenuInner_def Let_def col a_def)
  have "render_Menu h p ref portal c =
      Inr (Host ''div'' a [Provider [MenuStateContext ?st,
             SeparatorContext [(''elementType'', JStr ''div'')]] cs'] # visible [RContent portal])"
    using size inner render_root_content [of h portal]
    by (simp add: render_Menu_def Menu_def visible_def render_root_def)
  moreover have "\<forall>r \<in> set (visible [RContent portal]). host_tag r \<noteq> ''div''"
    using visible_content_no_host by fastforce
  ultimately show ?thesis using cs(3) by blast
qed

theorem Menu_renders_one_container_witness:
  "realized sample_collection \<and> nodes sample_collection \<noteq> [] \<and>
   (\<exists>a children.
      render_Menu sample_hooks [] JNull JNull sample_collection =
        Inr (Host ''div'' a
               [Provider [MenuStateContext (MenuInner_state sample_hooks [] sample_collection),
                          SeparatorContext [(''elementType'', JStr ''div'')]]
                  children]
             # visible [RContent JNull]) \<and>
      list_all2 (rendering_of sample_hooks (MenuInner_state sample_hooks [] sample_collection))
        (nodes sample_collection) children \<and>
      (\<forall>r \<in> set (visible [RContent JNull]). host_tag r \<noteq> ''div''))"
proof -
  have h1: "realized sample_collection"
    by (simp add: realized_def sample_collection_simps)
  have h2: "nodes sample_collection \<noteq> []"
    by (simp add: sample_collection_simps)
  have h3: "\<forall>n \<in> set (nodes sample_collection). type n \<in> menu_types"
    by (simp add: sample_collection_simps sample_keys menu_types_def)
  have h4: "\<forall>n \<in> set (nodes sample_collection). type n = ''section'' \<longrightarrow>
           (\<forall>m \<in> set (getChildren sample_collection (key n)). type m \<in> section_types)"
    by (simp add: sample_collection_simps sample_keys section_types_def)
  from Menu_renders_one_container [OF h1 h2 h3 h4, of sample_hooks "[]" JNull JNull] h1 h2
  show ?thesis by blast
qed

text \<open>
  C2: for every collection whose size is zero, the Menu returns \<open>false\<close> in place of the
  container, and the render gives no container and no element at all: only the portal,
  when there is one.
\<close>

theorem Menu_empty_collection:
  assumes "size_c c = 0"
  shows "Menu p ref portal c = [RFalse, RContent portal] \<and>
         render_Menu h p ref portal c =
           Inr (if renders_nothing (RContent portal) then [] else [RContent portal])"
  using assms render_root_content [of h portal]
  by (simp add: render_Menu_def Menu_def visible_def)

theorem Menu_empty_collection_witness:
  "size_c empty_collection = 0 \<and>
   Menu [] JNull (JOpaque ''portal'') empty_collection = [RFalse, RContent (JOpaque ''portal'')] \<and>
   render_Menu sample_hooks [] JNull (JOpaque ''portal'') empty_collection =
     Inr [RContent (JOpaque ''portal'')] \<and>
   render_Menu sample_hooks [] JNull JNull empty_collection = Inr []"
proof -
  have z: "size_c empty_collection = 0" by (simp add: empty_collection_def)
  from Menu_empty_collection [OF z, of "[]" JNull "JOpaque ''portal''" sample_hooks]
    Menu_empty_collection [OF z, of "[]" JNull JNull sample_hooks] z
  show ?thesis by simp
qed

section \<open>The nodes given to MenuItemInner\<close>

lemma item_elements_MenuInner_children:
  "MenuInner_children n = Inr r \<Longrightarrow> set (item_elements r) \<subseteq> {n}"
  by (auto simp add: MenuInner_children_def split: if_splits)

lemma item_elements_MenuSection_children:
  "MenuSection_children h hp hr n = Inr r \<Longrightarrow> set (item_elements r) \<subseteq> {n}"
  by (auto simp add: MenuSection_children_def Let_def split: if_splits)

lemma item_elements_of_children:
  assumes "list_all2 (\<lambda>x y. f x = Inr y) xs ys"
    and "\<And>x y. f x = Inr y \<Longrightarrow> set (item_elements y) \<subseteq> {x}"
  shows "set (concat (map item_elements ys)) \<subseteq> set xs"
  using assms(1)
proof (induction rule: list_all2_induct)
  case Nil
  then show ?case by simp
next
  case (Cons x xs y ys)
  from assms(2) [OF Cons.hyps(1)] Cons.IH show ?case by auto
qed

text \<open>
  C9: every \<open>MenuItemInner\<close> element that \<open>MenuInner\<close> returns is made for a top-level node
  of the tree state's collection, and every \<open>MenuItemInner\<close> element that \<open>MenuSection\<close>
  returns is made for a node among \<open>getChildren\<close> of the section's key in the state's
  collection.
\<close>

theorem MenuItemInner_only_for_collection_nodes:
  "(MenuInner h p c ref = Inr d \<longrightarrow>
      set (item_elements d) \<subseteq> set (nodes (collection (MenuInner_state h p c)))) \<and>
   (MenuSection h state section cn sty op = Inr s \<longrightarrow>
      set (item_elements s) \<subseteq> set (getChildren (collection state) (key section)))"
proof (intro conjI impI)
  assume "MenuInner h p c ref = Inr d"
  from MenuInner_Inr [OF this] obtain a children where d:
      "d = Host ''div'' a
             [Provider [MenuStateContext (MenuInner_state h p c),
                        SeparatorContext [(''elementType'', JStr ''div'')]] children]"
      "useCachedChildren (nodes (collection (MenuInner_state h p c))) MenuInner_children =
         Inr children"
    by blast
  from useCachedChildren_Inr [OF d(2)]
  have "set (concat (map item_elements children)) \<subseteq>
          set (nodes (collection (MenuInner_state h p c)))"
    by (rule item_elements_of_children) (rule item_elements_MenuInner_children)
  with d(1) show "set (item_elements d) \<subseteq> set (nodes (collection (MenuInner_state h p c)))"
    by simp
next
  assume "MenuSection h state section cn sty op = Inr s"
  from MenuSection_Inr [OF this] obtain a cs hp hr where s:
      "s = Host ''section'' a cs"
      "useCachedChildren (getChildren (collection state) (key section))
         (MenuSection_children h hp hr) = Inr cs"
    by blast
  from useCachedChildren_Inr [OF s(2)]
  have "set (concat (map item_elements cs)) \<subseteq>
          set (getChildren (collection state) (key section))"
    by (rule item_elements_of_children) (rule item_elements_MenuSection_children)
  with s(1) show "set (item_elements s) \<subseteq> set (getChildren (collection state) (key section))"
    by simp
qed

theorem MenuItemInner_only_for_collection_nodes_witness:
  "\<exists>d s. MenuInner sample_hooks [] sample_collection JNull = Inr d \<and>
     set (item_elements d) \<subseteq> set (nodes (collection (MenuInner_state sample_hooks [] sample_collection))) \<and>
     MenuSection sample_hooks sample_state section_node JUndefined JUndefined [] = Inr s \<and>
     set (item_elements s) \<subseteq> set (getChildren (collection sample_state) (key section_node))"
proof -
  obtain d where d: "MenuInner sample_hooks [] sample_collection JNull = Inr d"
    by (simp add: MenuInner_def Let_def MenuInner_state_collection sample_collection_simps
        MenuInner_children_def sample_keys)
  obtain s where s: "MenuSection sample_hooks sample_state section_node JUndefined JUndefined [] = Inr s"
    by (simp add: MenuSection_cases sample_collection_simps sample_keys
        MenuSection_children_def Let_def)
  from d s MenuItemInner_only_for_collection_nodes [of sample_hooks "[]" sample_collection JNull d sample_state section_node
      JUndefined JUndefined "[]" s]
  show ?thesis by blast
qed

section \<open>MenuItemInner\<close>

text \<open>
  C5, as stated: the element is an anchor exactly when the item's props include an
  \<open>href\<close>. The code tests \<open>props.href\<close> for truthiness, so an item whose \<open>href\<close> is the
  empty string has an \<open>href\<close> among its props and is rendered as a \<open>div\<close>.
\<close>

theorem element_type_empty_href_counterexample:
  "\<not> ((host_tag (MenuItemInner sample_hooks sample_state empty_href_item) = ''a'') =
       (get (props empty_href_item) ''href'' \<noteq> JUndefined))"
  by (simp add: MenuItemInner_tag ElementType_def sample_keys get_def)

text \<open>
  C5, amended: the element that \<open>MenuItemInner\<close> renders is an anchor exactly when the
  item's \<open>href\<close> is truthy, and a \<open>div\<close> otherwise: for an \<open>href\<close> that is a string, an
  anchor exactly when the string is not empty; a \<open>div\<close> when there is no \<open>href\<close>.
\<close>

theorem element_type_by_href:
  "host_tag (MenuItemInner h state item) =
     (if truthy (get (props item) ''href'') then ''a'' else ''div'') \<and>
   (get (props item) ''href'' = JUndefined \<longrightarrow>
      host_tag (MenuItemInner h state item) = ''div'') \<and>
   (\<forall>s. get (props item) ''href'' = JStr s \<longrightarrow>
      (host_tag (MenuItemInner h state item) = ''a'') = (s \<noteq> []) \<and>
      (host_tag (MenuItemInner h state item) = ''div'') = (s = []))"
  by (simp add: MenuItemInner_tag ElementType_def)

theorem element_type_by_href_witness:
  "get (props copy_item) ''href'' = JUndefined \<and>
   host_tag (MenuItemInner sample_hooks sample_state copy_item) = ''div'' \<and>
   get (props paste_item) ''href'' = JStr ''/paste'' \<and>
   host_tag (MenuItemInner sample_hooks sample_state paste_item) = ''a''"
proof -
  have a: "get (props copy_item) ''href'' = JUndefined"
    by (simp add: sample_keys get_def)
  have b: "get (props paste_item) ''href'' = JStr ''/paste''"
    by (simp add: sample_keys get_def)
  from a element_type_by_href [of sample_hooks sample_state copy_item]
  have "host_tag (MenuItemInner sample_hooks sample_state copy_item) = ''div''"
    by blast
  moreover from b element_type_by_href [of sample_hooks sample_state paste_item]
  have "host_tag (MenuItemInner sample_hooks sample_state paste_item) = ''a''"
    by simp
  ultimately show ?thesis using a b by simp
qed

text \<open>
  C6: on the element that \<open>MenuItemInner\<close> renders, \<open>data-selection-mode\<close> is absent
  (\<open>undefined\<close>) exactly when the selection mode of the tree state is \<open>none\<close>, and is the
  selection mode otherwise.
\<close>

theorem selection_mode_attribute:
  "(get (host_attrs (MenuItemInner h state item)) ''data-selection-mode'' = JUndefined) =
     (selectionMode (selectionManager state) = ''none'') \<and>
   (selectionMode (selectionManager state) \<noteq> ''none'' \<longrightarrow>
      get (host_attrs (MenuItemInner h state item)) ''data-selection-mode'' =
        JStr (selectionMode (selectionManager state)))"
  by (simp add: data_selection_mode)

theorem selection_mode_attribute_witness:
  "selectionMode (selectionManager sample_state) \<noteq> ''none'' \<and>
   get (host_attrs (MenuItemInner sample_hooks sample_state copy_item)) ''data-selection-mode'' =
     JStr ''single''"
  using selection_mode_attribute [of sample_hooks sample_state copy_item]
  by (simp add: sample_states)

text \<open>
  C7: the \<open>isHovered\<close> of the values passed to the render-prop callbacks is the item's
  \<open>isFocused\<close>, a callback given as \<open>className\<close> is called with these values, and
  \<open>data-hovered\<close> is computed from \<open>isFocused\<close>, so that \<open>data-hovered\<close> and \<open>data-focused\<close>
  always agree.
\<close>

theorem hovered_is_focused:
  "isHovered (MenuItemInner_values h state item) =
     isFocused (states (useMenuItem h (key item) state)) \<and>
   isHovered (MenuItemInner_values h state item) =
     isFocused (MenuItemInner_values h state item) \<and>
   get (host_attrs (MenuItemInner h state item)) ''data-hovered'' =
     (if isFocused (states (useMenuItem h (key item) state)) then JBool True else JUndefined) \<and>
   get (host_attrs (MenuItemInner h state item)) ''data-hovered'' =
     get (host_attrs (MenuItemInner h state item)) ''data-focused'' \<and>
   (\<forall>f. get (props item) ''className'' = JFun f \<longrightarrow>
      get (host_attrs (MenuItemInner h state item)) ''className'' =
        nullish (f (MenuItemInner_values h state item)) (JStr ''react-aria-MenuItem''))"
  by (simp add: data_hovered data_focused className_callback MenuItemInner_values_def Let_def
      item_states.defs)

theorem hovered_is_focused_witness:
  "isHovered (MenuItemInner_values sample_hooks sample_state copy_item) \<and>
   get (host_attrs (MenuItemInner sample_hooks sample_state copy_item)) ''data-hovered'' =
     JBool True \<and>
   get (host_attrs (MenuItemInner sample_hooks sample_state copy_item)) ''data-focused'' =
     JBool True \<and>
   \<not> isHovered (MenuItemInner_values sample_hooks sample_state paste_item) \<and>
   get (host_attrs (MenuItemInner sample_hooks sample_state paste_item)) ''data-focused'' =
     JUndefined \<and>
   get (host_attrs (MenuItemInner sample_hooks sample_state styled_item)) ''className'' =
     JStr ''hovered''"
proof -
  have cn: "get (props styled_item) ''className'' =
      JFun (\<lambda>v. if isHovered v then JStr ''hovered'' else JStr ''plain'')"
    by (simp add: styled_item_def mk_node_def get_def)
  have k: "key styled_item = ''copy''"
    by (simp add: styled_item_def mk_node_def)
  from cn hovered_is_focused [of sample_hooks sample_state styled_item]
  have "get (host_attrs (MenuItemInner sample_hooks sample_state styled_item)) ''className'' =
      JStr ''hovered''"
    by (simp add: sample_states k)
  with hovered_is_focused [of sample_hooks sample_state copy_item]
    hovered_is_focused [of sample_hooks sample_state paste_item]
  show ?thesis
    by (auto simp add: sample_states sample_keys)
qed

text \<open>
  C8: on the element that \<open>MenuItemInner\<close> renders, each of \<open>data-disabled\<close>,
  \<open>data-hovered\<close>, \<open>data-focused\<close>, \<open>data-focus-visible\<close>, \<open>data-pressed\<close> and
  \<open>data-selected\<close> is \<open>true\<close> when its flag is true and absent (\<open>undefined\<close>) when its flag is
  false; none of them is ever \<open>false\<close>.
\<close>

theorem data_attributes_mirror_flags:
  "(let el = host_attrs (MenuItemInner h state item);
        sts = states (useMenuItem h (key item) state);
        fv = isFocusVisible (useFocusRing h (key item))
    in get el ''data-disabled'' = (if isDisabled sts then JBool True else JUndefined) \<and>
       get el ''data-hovered'' = (if isFocused sts then JBool True else JUndefined) \<and>
       get el ''data-focused'' = (if isFocused sts then JBool True else JUndefined) \<and>
       get el ''data-focus-visible'' = (if fv then JBool True else JUndefined) \<and>
       get el ''data-pressed'' = (if isPressed sts then JBool True else JUndefined) \<and>
       get el ''data-selected'' = (if isSelected sts then JBool True else JUndefined) \<and>
       (\<forall>k \<in> {''data-disabled'', ''data-hovered'', ''data-focused'', ''data-focus-visible'',
              ''data-pressed'', ''data-selected''}. get el k \<noteq> JBool False))"
  by (simp add: Let_def data_disabled data_hovered data_focused data_focus_visible
      data_pressed data_selected)

theorem data_attributes_mirror_flags_witness:
  "get (host_attrs (MenuItemInner sample_hooks sample_state paste_item)) ''data-disabled'' =
     JBool True \<and>
   get (host_attrs (MenuItemInner sample_hooks sample_state paste_item)) ''data-pressed'' =
     JUndefined \<and>
   get (host_attrs (MenuItemInner sample_hooks sample_state paste_item)) ''data-selected'' \<noteq>
     JBool False \<and>
   get (host_attrs (MenuItemInner sample_hooks sample_state copy_item)) ''data-focus-visible'' =
     JBool True \<and>
   get (host_attrs (MenuItemInner sample_hooks sample_state copy_item)) ''data-disabled'' =
     JUndefined"
  using data_attributes_mirror_flags [of sample_hooks sample_state paste_item]
    data_attributes_mirror_flags [of sample_hooks sample_state copy_item]
  by (simp add: Let_def sample_states sample_keys)

end
